theory Spec2Isabelle
  imports Main
begin

section \<open>The settings registry of \<open>core/settings.py\<close>\<close>

text \<open>
  The module reads and rewrites Dwarf Fortress configuration files. Strings of the
  program are modelled as \<open>string\<close>: one \<open>char\<close> per character of the cp437
  code page the files are opened with (cp437 maps the 256 bytes one-to-one to
  characters, so a \<open>char\<close> is at once the byte on disk and the decoded character;
  a value that cp437 cannot encode is not a \<open>string\<close>). An exception ends the
  call: a function that can raise returns \<open>Inl\<close> of the error, and \<open>Inr\<close> of its
  result or of the new state otherwise.
\<close>

subsection \<open>Errors and special characters\<close>

datatype error =
    KeyError        \<comment> \<open>a missing dictionary key\<close>
  | ValueError      \<comment> \<open>\<open>list.index\<close> of an absent element\<close>
  | IndexError      \<comment> \<open>subscript of an empty sequence or string\<close>
  | IOError         \<comment> \<open>a file that cannot be opened\<close>
  | ReError         \<comment> \<open>\<open>re.error\<close>: a malformed replacement template\<close>
  | Unmodelled      \<comment> \<open>a call of the \<open>re\<close> library outside the fragment modelled here\<close>

abbreviation LF :: char where "LF \<equiv> CHR 0x0A"
abbreviation CR :: char where "CR \<equiv> CHR 0x0D"
abbreviation BSL :: char where "BSL \<equiv> CHR 0x5C"

subsection \<open>Value policies and cycling\<close>

text \<open>
  The \<open>values\<close> argument of \<open>create_option\<close>: \<open>None\<close>, one of the three marker
  objects \<open>_disabled\<close>, \<open>_force_bool\<close>, \<open>_negated_bool\<close>, or a tuple of strings.
\<close>

datatype valid_values =
    NoneV
  | Disabled
  | ForceBool
  | NegatedBool
  | Items "string list"

text \<open>\<open>list.index\<close>: the first position of an element, \<open>ValueError\<close> when absent.\<close>

fun index_of :: "'a list \<Rightarrow> 'a \<Rightarrow> error + nat" where
  "index_of [] x = Inl ValueError"
| "index_of (y # ys) x =
     (if y = x then Inr 0
      else (case index_of ys x of Inl e \<Rightarrow> Inl e | Inr i \<Rightarrow> Inr (Suc i)))"

text \<open>
  The last three lines of \<open>cycle_list\<close>, for a sequence \<open>items\<close>:
  \<^verbatim>\<open>
        if current not in items:
            return items[0]
        return items[(items.index(current) + 1) % len(items)]
  \<close>
\<close>

definition cycle_items :: "string \<Rightarrow> string list \<Rightarrow> error + string" where
  "cycle_items current items =
     (if current \<notin> set items then
        (case items of [] \<Rightarrow> Inl IndexError | x # _ \<Rightarrow> Inr x)
      else
        (case index_of items current of
           Inl e \<Rightarrow> Inl e
         | Inr i \<Rightarrow> Inr (items ! ((i + 1) mod length items))))"

fun cycle_list :: "string \<Rightarrow> valid_values \<Rightarrow> error + string" where
  "cycle_list current NoneV = Inr current"
| "cycle_list current (Items items) = cycle_items current items"
| "cycle_list current _ = cycle_items current [''YES'', ''NO'']"

subsection \<open>Files opened in text mode\<close>

text \<open>
  Every file is opened with \<open>io.open(filename, mode, encoding='cp437')\<close>. A file
  system maps a file name to the bytes of the file; opening a name that is not there
  for reading raises \<open>IOError\<close>, and every name can be written. Text mode translates
  line endings: \<open>read()\<close> turns CR LF and a lone CR into LF, and \<open>write()\<close> turns
  every LF into \<open>os.linesep\<close>, which depends on the platform.
\<close>

type_synonym filesystem = "string \<rightharpoonup> string"

datatype platform = Posix | Windows

fun linesep :: "platform \<Rightarrow> string" where
  "linesep Posix = [LF]"
| "linesep Windows = [CR, LF]"

fun universal_newlines :: "string \<Rightarrow> string" where
  "universal_newlines [] = []"
| "universal_newlines [c] = (if c = CR then [LF] else [c])"
| "universal_newlines (c # d # ds) =
     (if c = CR then
        (if d = LF then LF # universal_newlines ds else LF # universal_newlines (d # ds))
      else c # universal_newlines (d # ds))"

fun translate_newlines :: "string \<Rightarrow> string \<Rightarrow> string" where
  "translate_newlines sep [] = []"
| "translate_newlines sep (c # cs) =
     (if c = LF then sep @ translate_newlines sep cs else c # translate_newlines sep cs)"

definition read_text :: "filesystem \<Rightarrow> string \<Rightarrow> error + string" where
  "read_text fs filename =
     (case fs filename of
        None \<Rightarrow> Inl IOError
      | Some bytes \<Rightarrow> Inr (universal_newlines bytes))"

definition write_text :: "platform \<Rightarrow> filesystem \<Rightarrow> string \<Rightarrow> string \<Rightarrow> filesystem" where
  "write_text os fs filename text = fs(filename \<mapsto> translate_newlines (linesep os) text)"

subsection \<open>The regular expressions\<close>

text \<open>
  The module builds its patterns by pasting a field name into
  \<^verbatim>\<open>r'\[{0}:(.+?)\]'\<close>. The model covers field names that the \<open>re\<close> syntax reads
  as literal text; for any other name the operations below answer \<open>Unmodelled\<close>.
\<close>

definition regex_special :: "char list" where
  "regex_special = ''.^$*+?{}[]|()'' @ [BSL]"

definition regex_literal :: "string \<Rightarrow> bool" where
  "regex_literal s = (\<forall>c \<in> set s. c \<notin> set regex_special)"

text \<open>
  \<^verbatim>\<open>.*?\]\<close> at the start of a string: the shortest run of characters other than
  newline that is followed by \<open>]\<close>. The result is the run and what follows the bracket.
\<close>

fun until_close :: "string \<Rightarrow> (string \<times> string) option" where
  "until_close [] = None"
| "until_close (c # cs) =
     (if c = CHR '']'' then Some ([], cs)
      else if c = LF then None
      else (case until_close cs of None \<Rightarrow> None | Some (v, r) \<Rightarrow> Some (c # v, r)))"

text \<open>
  \<^verbatim>\<open>(.+?)\]\<close> at the start of a string: the dot takes one character, whatever it is
  except newline, before the lazy match looks for the bracket.
\<close>

fun lazy_value :: "string \<Rightarrow> (string \<times> string) option" where
  "lazy_value [] = None"
| "lazy_value (c # cs) =
     (if c = LF then None
      else (case until_close cs of None \<Rightarrow> None | Some (v, r) \<Rightarrow> Some (c # v, r)))"

text \<open>\<^verbatim>\<open>\[F:(.+?)\]\<close> anchored at the start of a string, for a literal name \<open>F\<close>.\<close>

definition match_field :: "string \<Rightarrow> string \<Rightarrow> (string \<times> string) option" where
  "match_field fname s =
     (let p = CHR ''['' # fname @ '':''
      in if take (length p) s = p then lazy_value (drop (length p) s) else None)"

text \<open>
  \<open>re.search\<close>: the leftmost match. The result is the text before the match, the
  captured group and the text after the match.
\<close>

fun re_search :: "string \<Rightarrow> string \<Rightarrow> (string \<times> string \<times> string) option" where
  "re_search fname [] = None"
| "re_search fname (c # cs) =
     (case match_field fname (c # cs) of
        Some (v, r) \<Rightarrow> Some ([], v, r)
      | None \<Rightarrow>
          (case re_search fname cs of
             None \<Rightarrow> None
           | Some (pre, v, r) \<Rightarrow> Some (c # pre, v, r)))"

text \<open>
  \<open>re.sub\<close> with the default \<open>count=0\<close>: scanning from the left, every match is
  replaced and the scan goes on after it.
\<close>

function re_sub :: "string \<Rightarrow> string \<Rightarrow> string \<Rightarrow> string" where
  "re_sub fname rep [] = []"
| "re_sub fname rep (c # cs) =
     (case match_field fname (c # cs) of
        Some (v, r) \<Rightarrow> rep @ re_sub fname rep r
      | None \<Rightarrow> c # re_sub fname rep cs)"
  by pat_completeness auto
termination
proof -
  have closing: "until_close s = Some (v, r) \<Longrightarrow> length r < length s" for s v r
    by (induction s arbitrary: v) (auto split: if_splits option.splits)
  have lazy: "lazy_value s = Some (v, r) \<Longrightarrow> length r < length s" for s v r
    by (cases s) (auto split: if_splits option.splits dest: closing)
  have shorter: "match_field fname s = Some (v, r) \<Longrightarrow> length r < length s"
    for fname s v r
    by (auto simp: match_field_def Let_def split: if_splits dest!: lazy)
  show ?thesis
    by (relation "measure (\<lambda>(fname, rep, s). length s)") (auto dest: shorter)
qed

text \<open>
  The replacement string of \<open>re.sub\<close> is a template: a backslash starts an escape.
  \<open>\\\<close> stands for a backslash and \<open>\n\<close> for a newline, a backslash at the very
  end is an error; the other escapes (group references, octal codes, unknown letters)
  are outside the model.
\<close>

fun expand_template :: "string \<Rightarrow> error + string" where
  "expand_template [] = Inr []"
| "expand_template [c] = (if c = BSL then Inl ReError else Inr [c])"
| "expand_template (c # d # ds) =
     (if c \<noteq> BSL then map_sum id ((#) c) (expand_template (d # ds))
      else if d = BSL then map_sum id ((#) BSL) (expand_template ds)
      else if d = CHR ''n'' then map_sum id ((#) LF) (expand_template ds)
      else Inl Unmodelled)"

text \<open>
  \<^verbatim>\<open>re.sub(r'\[{0}:(.+?)\]'.format(fname), '[{0}:{1}]'.format(fname, value), text)\<close>
\<close>

definition sub_field :: "string \<Rightarrow> string \<Rightarrow> string \<Rightarrow> error + string" where
  "sub_field fname val text =
     (if \<not> regex_literal fname then Inl Unmodelled
      else (case expand_template (''['' @ fname @ '':'' @ val @ '']'') of
              Inl e \<Rightarrow> Inl e
            | Inr rep \<Rightarrow> Inr (re_sub fname rep text)))"

text \<open>
  \<^verbatim>\<open>\[(.+?):(.+?)\]\<close> of the automatic registration, anchored at the start of a
  string. After the first character of the name the lazy match tries a colon and a
  value at each position, and lengthens the name by one character when that fails.
\<close>

fun name_tail :: "string \<Rightarrow> (string \<times> string \<times> string) option" where
  "name_tail [] = None"
| "name_tail (c # cs) =
     (case (if c = CHR '':'' then lazy_value cs else None) of
        Some (v, r) \<Rightarrow> Some ([], v, r)
      | None \<Rightarrow>
          (if c = LF then None
           else (case name_tail cs of
                   None \<Rightarrow> None
                 | Some (n, v, r) \<Rightarrow> Some (c # n, v, r))))"

fun match_pair :: "string \<Rightarrow> (string \<times> string \<times> string) option" where
  "match_pair (a # c # cs) =
     (if a = CHR ''['' \<and> c \<noteq> LF then
        (case name_tail cs of None \<Rightarrow> None | Some (n, v, r) \<Rightarrow> Some (c # n, v, r))
      else None)"
| "match_pair _ = None"

text \<open>\<open>re.findall\<close>: the two groups of every match, from left to right.\<close>

function re_findall :: "string \<Rightarrow> (string \<times> string) list" where
  "re_findall [] = []"
| "re_findall (c # cs) =
     (case match_pair (c # cs) of
        Some (n, v, r) \<Rightarrow> (n, v) # re_findall r
      | None \<Rightarrow> re_findall cs)"
  by pat_completeness auto
termination
proof -
  have closing: "until_close s = Some (v, r) \<Longrightarrow> length r < length s" for s v r
    by (induction s arbitrary: v) (auto split: if_splits option.splits)
  have lazy: "lazy_value s = Some (v, r) \<Longrightarrow> length r < length s" for s v r
    by (cases s) (auto split: if_splits option.splits dest: closing)
  have tail: "name_tail s = Some (n, v, r) \<Longrightarrow> length r < length s" for s n v r
  proof (induction s arbitrary: n)
    case Nil
    then show ?case by simp
  next
    case (Cons c cs)
    then show ?case
      by (fastforce split: if_splits option.splits dest: lazy)
  qed
  have shorter: "match_pair s = Some (n, v, r) \<Longrightarrow> length r < length s" for s n v r
    by (cases s rule: match_pair.cases)
       (auto split: if_splits option.splits dest: tail)
  show ?thesis
    by (relation "measure length") (auto dest: shorter)
qed

subsection \<open>Plain string operations\<close>

text \<open>\<open>old in text\<close>: the substring test.\<close>

fun str_contains :: "string \<Rightarrow> string \<Rightarrow> bool" where
  "str_contains old [] = (old = [])"
| "str_contains old (c # cs) = (take (length old) (c # cs) = old \<or> str_contains old cs)"

text \<open>
  \<open>text.replace(old, new)\<close>: every occurrence of \<open>old\<close>, from left to right, without
  overlap. (With an empty \<open>old\<close> Python puts \<open>new\<close> around every character.)
\<close>

function str_replace :: "string \<Rightarrow> string \<Rightarrow> string \<Rightarrow> string" where
  "str_replace old new [] = (if old = [] then new else [])"
| "str_replace old new (c # cs) =
     (if old = [] then new @ c # str_replace old new cs
      else if take (length old) (c # cs) = old
        then new @ str_replace old new (drop (length old) (c # cs))
      else c # str_replace old new cs)"
  by pat_completeness auto
termination
  by (relation "measure (\<lambda>(old, new, s). length s)") auto

subsection \<open>The registry\<close>

text \<open>
  The version descriptor \<open>df_info\<close> comes from another module. The registry only
  compares its \<open>version\<close> with the strings of the version table, so the descriptor
  is taken as the two comparisons: \<open>version_ge info s\<close> is \<open>s <= df_info.version\<close>
  and \<open>version_lt info s\<close> is \<open>df_info.version < s\<close>.
\<close>

record df_info =
  version_ge :: "string \<Rightarrow> bool"
  version_lt :: "string \<Rightarrow> bool"

text \<open>
  A descriptor whose version is a plain string, compared as Python compares
  strings: character by character, a proper prefix first.
\<close>

fun str_less :: "string \<Rightarrow> string \<Rightarrow> bool" where
  "str_less [] [] = False"
| "str_less [] (y # ys) = True"
| "str_less (x # xs) [] = False"
| "str_less (x # xs) (y # ys) =
     ((of_char x :: nat) < of_char y \<or> (x = y \<and> str_less xs ys))"

definition str_version :: "string \<Rightarrow> df_info" where
  "str_version v = \<lparr>version_ge = (\<lambda>s. \<not> str_less v s), version_lt = (\<lambda>s. str_less v s)\<rparr>"

text \<open>
  The dictionaries of a \<open>DFConfiguration\<close> object. A set of files is a tuple of file
  names; \<open>in_files\<close> is keyed by such tuples.
\<close>

record registry =
  base_dir :: string
  df_info :: df_info
  settings :: "string \<rightharpoonup> string"
  options :: "string \<rightharpoonup> valid_values"
  field_names :: "string \<rightharpoonup> string"
  inverse_field_names :: "string \<rightharpoonup> string"
  files :: "string \<rightharpoonup> string list"
  in_files :: "string list \<rightharpoonup> string list"

text \<open>The dictionaries as the constructor creates them, before any registration.\<close>

definition empty_registry :: "string \<Rightarrow> df_info \<Rightarrow> registry" where
  "empty_registry dir info =
     \<lparr>base_dir = dir, df_info = info, settings = Map.empty, options = Map.empty,
      field_names = Map.empty, inverse_field_names = Map.empty, files = Map.empty,
      in_files = Map.empty\<rparr>"

subsection \<open>The version table\<close>

text \<open>
  \<open>data\<close> of \<open>version_has_option\<close>: for each tag the first version that has it and,
  when there is a second entry, the first version that no longer has it.
\<close>

definition version_table :: "(string \<times> string list) list" where
  "version_table = [
    (''EXTENDED_ASCII'', [''0.21.93.19a'', ''0.21.104.19d'']),
    (''BLACK_B'', [''0.21.93.19a'', ''0.31.04'']),
    (''BLACK_G'', [''0.21.93.19a'', ''0.31.04'']),
    (''BLACK_R'', [''0.21.93.19a'', ''0.31.04'']),
    (''BLUE_B'', [''0.21.93.19a'', ''0.31.04'']), (''BLUE_G'', [''0.21.93.19a'', ''0.31.04'']),
    (''BLUE_R'', [''0.21.93.19a'', ''0.31.04'']),
    (''BROWN_B'', [''0.21.93.19a'', ''0.31.04'']),
    (''BROWN_G'', [''0.21.93.19a'', ''0.31.04'']),
    (''BROWN_R'', [''0.21.93.19a'', ''0.31.04'']),
    (''CYAN_B'', [''0.21.93.19a'', ''0.31.04'']), (''CYAN_G'', [''0.21.93.19a'', ''0.31.04'']),
    (''CYAN_R'', [''0.21.93.19a'', ''0.31.04'']),
    (''DGRAY_B'', [''0.21.93.19a'', ''0.31.04'']),
    (''DGRAY_G'', [''0.21.93.19a'', ''0.31.04'']),
    (''DGRAY_R'', [''0.21.93.19a'', ''0.31.04'']),
    (''GREEN_B'', [''0.21.93.19a'', ''0.31.04'']),
    (''GREEN_G'', [''0.21.93.19a'', ''0.31.04'']),
    (''GREEN_R'', [''0.21.93.19a'', ''0.31.04'']),
    (''LBLUE_B'', [''0.21.93.19a'', ''0.31.04'']),
    (''LBLUE_G'', [''0.21.93.19a'', ''0.31.04'']),
    (''LBLUE_R'', [''0.21.93.19a'', ''0.31.04'']),
    (''LCYAN_B'', [''0.21.93.19a'', ''0.31.04'']),
    (''LCYAN_G'', [''0.21.93.19a'', ''0.31.04'']),
    (''LCYAN_R'', [''0.21.93.19a'', ''0.31.04'']),
    (''LGRAY_B'', [''0.21.93.19a'', ''0.31.04'']),
    (''LGRAY_G'', [''0.21.93.19a'', ''0.31.04'']),
    (''LGRAY_R'', [''0.21.93.19a'', ''0.31.04'']),
    (''LGREEN_B'', [''0.21.93.19a'', ''0.31.04'']),
    (''LGREEN_G'', [''0.21.93.19a'', ''0.31.04'']),
    (''LGREEN_R'', [''0.21.93.19a'', ''0.31.04'']),
    (''LMAGENTA_B'', [''0.21.93.19a'', ''0.31.04'']),
    (''LMAGENTA_G'', [''0.21.93.19a'', ''0.31.04'']),
    (''LMAGENTA_R'', [''0.21.93.19a'', ''0.31.04'']),
    (''LRED_B'', [''0.21.93.19a'', ''0.31.04'']), (''LRED_G'', [''0.21.93.19a'', ''0.31.04'']),
    (''LRED_R'', [''0.21.93.19a'', ''0.31.04'']),
    (''MAGENTA_B'', [''0.21.93.19a'', ''0.31.04'']),
    (''MAGENTA_G'', [''0.21.93.19a'', ''0.31.04'']),
    (''MAGENTA_R'', [''0.21.93.19a'', ''0.31.04'']),
    (''RED_B'', [''0.21.93.19a'', ''0.31.04'']), (''RED_G'', [''0.21.93.19a'', ''0.31.04'']),
    (''RED_R'', [''0.21.93.19a'', ''0.31.04'']), (''WHITE_B'', [''0.21.93.19a'', ''0.31.04'']),
    (''WHITE_G'', [''0.21.93.19a'', ''0.31.04'']),
    (''WHITE_R'', [''0.21.93.19a'', ''0.31.04'']),
    (''YELLOW_B'', [''0.21.93.19a'', ''0.31.04'']),
    (''YELLOW_G'', [''0.21.93.19a'', ''0.31.04'']),
    (''YELLOW_R'', [''0.21.93.19a'', ''0.31.04'']), (''DISPLAY_LENGTH'', [''0.21.93.19a'']),
    (''FONT'', [''0.21.93.19a'']), (''FULLFONT'', [''0.21.93.19a'']),
    (''FULLSCREENX'', [''0.21.93.19a'']), (''FULLSCREENY'', [''0.21.93.19a'']),
    (''MORE'', [''0.21.93.19a'']), (''VARIED_GROUND_TILES'', [''0.21.93.19a'']),
    (''WINDOWEDX'', [''0.21.93.19a'']), (''WINDOWEDY'', [''0.21.93.19a'']),
    (''INTRO'', [''0.21.100.19a'']), (''SOUND'', [''0.21.100.19a'']),
    (''KEY_HOLD_MS'', [''0.21.101.19a'']), (''NICKNAME_ADVENTURE'', [''0.21.102.19a'']),
    (''NICKNAME_DWARF'', [''0.21.102.19a'']), (''NICKNAME_LEGENDS'', [''0.21.102.19a'']),
    (''WINDOWED'', [''0.21.102.19a'']), (''ENGRAVINGS_START_OBSCURED'', [''0.21.104.19d'']),
    (''MOUSE'', [''0.21.104.21a'']), (''MOUSE_PICTURE'', [''0.21.104.21a'']),
    (''ADVENTURER_TRAPS'', [''0.22.110.23a'']), (''BLACK_SPACE'', [''0.22.120.23a'']),
    (''GRAPHICS'', [''0.22.120.23a'']), (''GRAPHICS_BLACK_SPACE'', [''0.22.120.23a'']),
    (''GRAPHICS_FONT'', [''0.22.120.23a'']), (''GRAPHICS_FULLFONT'', [''0.22.120.23a'']),
    (''GRAPHICS_FULLSCREENX'', [''0.22.120.23a'']),
    (''GRAPHICS_FULLSCREENY'', [''0.22.120.23a'']),
    (''GRAPHICS_WINDOWEDX'', [''0.22.120.23a'']), (''GRAPHICS_WINDOWEDY'', [''0.22.120.23a'']),
    (''FPS'', [''0.22.121.23b'']), (''TEMPERATURE'', [''0.22.121.23b'']),
    (''WEATHER'', [''0.22.121.23b'']), (''FPS_CAP'', [''0.23.130.23a'']),
    (''POPULATION_CAP'', [''0.23.130.23a'']),
    (''ADVENTURER_ALWAYS_CENTER'', [''0.27.169.32a'']),
    (''ADVENTURER_Z_VIEWS'', [''0.27.169.32a'']), (''AQUIFER'', [''0.27.169.32a'']),
    (''ARTIFACTS'', [''0.27.169.32a'']), (''AUTOBACKUP'', [''0.27.169.32a'']),
    (''AUTOSAVE'', [''0.27.169.32a'']), (''CAVEINS'', [''0.27.169.32a'']),
    (''CHASM'', [''0.27.169.32a'']), (''COFFIN_NO_PETS_DEFAULT'', [''0.27.169.32a'']),
    (''ECONOMY'', [''0.27.169.32a'']), (''G_FPS_CAP'', [''0.27.169.32a'']),
    (''INITIAL_SAVE'', [''0.27.169.32a'']), (''INVADERS'', [''0.27.169.32a'']),
    (''LOG_MAP_REJECTS'', [''0.27.169.32a'']), (''PATH_COST'', [''0.27.169.32a'']),
    (''RECENTER_INTERFACE_SHUTDOWN_MS'', [''0.27.169.32a'']),
    (''SHOW_FLOW_AMOUNTS'', [''0.27.169.32a'']), (''SHOW_IMP_QUALITY'', [''0.27.169.32a'']),
    (''SKY'', [''0.27.169.32a'']), (''TEXTURE_PARAM'', [''0.27.169.32a'']),
    (''TOPMOST'', [''0.27.169.32a'']), (''VOLUME'', [''0.27.169.32a'']),
    (''VSYNC'', [''0.27.169.32a'']), (''PRIORITY'', [''0.27.169.33c'']),
    (''EMBARK_RECTANGLE'', [''0.27.169.33g'']), (''PAUSE_ON_LOAD'', [''0.27.169.33g'']),
    (''BABY_CHILD_CAP'', [''0.27.176.38a'']), (''ZERO_RENT'', [''0.27.176.38a'']),
    (''AUTOSAVE_PAUSE'', [''0.27.176.38b'']), (''EMBARK_WARNING_ALWAYS'', [''0.27.176.38b'']),
    (''IDLERS'', [''0.28.181.39a'']), (''SHOW_ALL_HISTORY_IN_DWARF_MODE'', [''0.28.181.39a'']),
    (''SHOW_EMBARK_CHASM'', [''0.28.181.39d'', ''0.31.01'']),
    (''SHOW_EMBARK_M_PIPE'', [''0.28.181.39d'', ''0.31.01'']),
    (''SHOW_EMBARK_M_POOL'', [''0.28.181.39d'', ''0.31.01'']),
    (''SHOW_EMBARK_OTHER'', [''0.28.181.39d'', ''0.31.01'']),
    (''SHOW_EMBARK_PIT'', [''0.28.181.39d'', ''0.31.01'']),
    (''SHOW_EMBARK_POOL'', [''0.28.181.39d'', ''0.31.01'']),
    (''SHOW_EMBARK_RIVER'', [''0.28.181.39d'', ''0.31.01'']),
    (''SHOW_EMBARK_TUNNEL'', [''0.28.181.39d'']), (''GRID'', [''0.28.181.39f'']),
    (''STORE_DIST_BARREL_COMBINE'', [''0.28.181.40a'']),
    (''STORE_DIST_BIN_COMBINE'', [''0.28.181.40a'']),
    (''STORE_DIST_BUCKET_COMBINE'', [''0.28.181.40a'']),
    (''STORE_DIST_ITEM_DECREASE'', [''0.28.181.40a'']),
    (''STORE_DIST_SEED_COMBINE'', [''0.28.181.40a'']), (''FULLGRID'', [''0.28.181.40b'']),
    (''PARTIAL_PRINT'', [''0.28.181.40b'']), (''COMPRESSED_SAVES'', [''0.31.01'']),
    (''TESTING_ARENA'', [''0.31.01'']), (''WOUND_COLOR_BROKEN'', [''0.31.01'']),
    (''WOUND_COLOR_FUNCTION_LOSS'', [''0.31.01'']), (''WOUND_COLOR_INHIBITED'', [''0.31.01'']),
    (''WOUND_COLOR_MINOR'', [''0.31.01'']), (''WOUND_COLOR_MISSING'', [''0.31.01'']),
    (''WOUND_COLOR_NONE'', [''0.31.01'']), (''PILLAR_TILE'', [''0.31.08'']),
    (''ZOOM_SPEED'', [''0.31.13'']), (''ARB_SYNC'', [''0.31.13'']),
    (''KEY_REPEAT_ACCEL_LIMIT'', [''0.31.13'']), (''KEY_REPEAT_ACCEL_START'', [''0.31.13'']),
    (''KEY_REPEAT_MS'', [''0.31.13'']), (''MACRO_MS'', [''0.31.13'']),
    (''PRINT_MODE'', [''0.31.13'']), (''RESIZABLE'', [''0.31.13'']),
    (''SINGLE_BUFFER'', [''0.31.13'']), (''TRUETYPE'', [''0.31.13'']),
    (''WALKING_SPREADS_SPATTER_ADV'', [''0.31.16'']),
    (''WALKING_SPREADS_SPATTER_DWF'', [''0.31.16'']), (''SET_LABOR_LISTS'', [''0.34.03'']),
    (''TRACK_E'', [''0.34.08'']), (''TRACK_EW'', [''0.34.08'']), (''TRACK_N'', [''0.34.08'']),
    (''TRACK_NE'', [''0.34.08'']), (''TRACK_NEW'', [''0.34.08'']),
    (''TRACK_NS'', [''0.34.08'']), (''TRACK_NSE'', [''0.34.08'']),
    (''TRACK_NSEW'', [''0.34.08'']), (''TRACK_NSW'', [''0.34.08'']),
    (''TRACK_NW'', [''0.34.08'']), (''TRACK_RAMP_E'', [''0.34.08'']),
    (''TRACK_RAMP_EW'', [''0.34.08'']), (''TRACK_RAMP_N'', [''0.34.08'']),
    (''TRACK_RAMP_NE'', [''0.34.08'']), (''TRACK_RAMP_NEW'', [''0.34.08'']),
    (''TRACK_RAMP_NS'', [''0.34.08'']), (''TRACK_RAMP_NSE'', [''0.34.08'']),
    (''TRACK_RAMP_NSEW'', [''0.34.08'']), (''TRACK_RAMP_NSW'', [''0.34.08'']),
    (''TRACK_RAMP_NW'', [''0.34.08'']), (''TRACK_RAMP_S'', [''0.34.08'']),
    (''TRACK_RAMP_SE'', [''0.34.08'']), (''TRACK_RAMP_SEW'', [''0.34.08'']),
    (''TRACK_RAMP_SW'', [''0.34.08'']), (''TRACK_RAMP_W'', [''0.34.08'']),
    (''TRACK_S'', [''0.34.08'']), (''TRACK_SE'', [''0.34.08'']),
    (''TRACK_SEW'', [''0.34.08'']), (''TRACK_SW'', [''0.34.08'']),
    (''TRACK_W'', [''0.34.08'']), (''FORTRESS_SEED_CAP'', [''0.40.01'']),
    (''SPECIFIC_SEED_CAP'', [''0.40.01'']), (''TREE_BRANCH_EW'', [''0.40.01'']),
    (''TREE_BRANCH_EW_DEAD'', [''0.40.01'']), (''TREE_BRANCH_NE'', [''0.40.01'']),
    (''TREE_BRANCH_NE_DEAD'', [''0.40.01'']), (''TREE_BRANCH_NEW'', [''0.40.01'']),
    (''TREE_BRANCH_NEW_DEAD'', [''0.40.01'']), (''TREE_BRANCH_NS'', [''0.40.01'']),
    (''TREE_BRANCH_NS_DEAD'', [''0.40.01'']), (''TREE_BRANCH_NSE'', [''0.40.01'']),
    (''TREE_BRANCH_NSE_DEAD'', [''0.40.01'']), (''TREE_BRANCH_NSEW'', [''0.40.01'']),
    (''TREE_BRANCH_NSEW_DEAD'', [''0.40.01'']), (''TREE_BRANCH_NSW'', [''0.40.01'']),
    (''TREE_BRANCH_NSW_DEAD'', [''0.40.01'']), (''TREE_BRANCH_NW'', [''0.40.01'']),
    (''TREE_BRANCH_NW_DEAD'', [''0.40.01'']), (''TREE_BRANCH_SE'', [''0.40.01'']),
    (''TREE_BRANCH_SE_DEAD'', [''0.40.01'']), (''TREE_BRANCH_SEW'', [''0.40.01'']),
    (''TREE_BRANCH_SEW_DEAD'', [''0.40.01'']), (''TREE_BRANCH_SW'', [''0.40.01'']),
    (''TREE_BRANCH_SW_DEAD'', [''0.40.01'']), (''TREE_BRANCHES'', [''0.40.01'']),
    (''TREE_BRANCHES_DEAD'', [''0.40.01'']), (''TREE_CAP_FLOOR1'', [''0.40.01'']),
    (''TREE_CAP_FLOOR1_DEAD'', [''0.40.01'']), (''TREE_CAP_FLOOR2'', [''0.40.01'']),
    (''TREE_CAP_FLOOR2_DEAD'', [''0.40.01'']), (''TREE_CAP_FLOOR3'', [''0.40.01'']),
    (''TREE_CAP_FLOOR3_DEAD'', [''0.40.01'']), (''TREE_CAP_FLOOR4'', [''0.40.01'']),
    (''TREE_CAP_FLOOR4_DEAD'', [''0.40.01'']), (''TREE_CAP_PILLAR'', [''0.40.01'']),
    (''TREE_CAP_PILLAR_DEAD'', [''0.40.01'']), (''TREE_CAP_RAMP'', [''0.40.01'']),
    (''TREE_CAP_RAMP_DEAD'', [''0.40.01'']), (''TREE_CAP_WALL_E'', [''0.40.01'']),
    (''TREE_CAP_WALL_E_DEAD'', [''0.40.01'']), (''TREE_CAP_WALL_N'', [''0.40.01'']),
    (''TREE_CAP_WALL_N_DEAD'', [''0.40.01'']), (''TREE_CAP_WALL_NE'', [''0.40.01'']),
    (''TREE_CAP_WALL_NE_DEAD'', [''0.40.01'']), (''TREE_CAP_WALL_NW'', [''0.40.01'']),
    (''TREE_CAP_WALL_NW_DEAD'', [''0.40.01'']), (''TREE_CAP_WALL_S'', [''0.40.01'']),
    (''TREE_CAP_WALL_S_DEAD'', [''0.40.01'']), (''TREE_CAP_WALL_SE'', [''0.40.01'']),
    (''TREE_CAP_WALL_SE_DEAD'', [''0.40.01'']), (''TREE_CAP_WALL_SW'', [''0.40.01'']),
    (''TREE_CAP_WALL_SW_DEAD'', [''0.40.01'']), (''TREE_CAP_WALL_W'', [''0.40.01'']),
    (''TREE_CAP_WALL_W_DEAD'', [''0.40.01'']), (''TREE_ROOT_SLOPING'', [''0.40.01'']),
    (''TREE_ROOT_SLOPING_DEAD'', [''0.40.01'']), (''TREE_ROOTS'', [''0.40.01'']),
    (''TREE_ROOTS_DEAD'', [''0.40.01'']), (''TREE_SMOOTH_BRANCHES'', [''0.40.01'']),
    (''TREE_SMOOTH_BRANCHES_DEAD'', [''0.40.01'']), (''TREE_TRUNK_BRANCH_E'', [''0.40.01'']),
    (''TREE_TRUNK_BRANCH_E_DEAD'', [''0.40.01'']), (''TREE_TRUNK_BRANCH_N'', [''0.40.01'']),
    (''TREE_TRUNK_BRANCH_N_DEAD'', [''0.40.01'']), (''TREE_TRUNK_BRANCH_S'', [''0.40.01'']),
    (''TREE_TRUNK_BRANCH_S_DEAD'', [''0.40.01'']), (''TREE_TRUNK_BRANCH_W'', [''0.40.01'']),
    (''TREE_TRUNK_BRANCH_W_DEAD'', [''0.40.01'']), (''TREE_TRUNK_E'', [''0.40.01'']),
    (''TREE_TRUNK_E_DEAD'', [''0.40.01'']), (''TREE_TRUNK_EW'', [''0.40.01'']),
    (''TREE_TRUNK_EW_DEAD'', [''0.40.01'']), (''TREE_TRUNK_INTERIOR'', [''0.40.01'']),
    (''TREE_TRUNK_INTERIOR_DEAD'', [''0.40.01'']), (''TREE_TRUNK_N'', [''0.40.01'']),
    (''TREE_TRUNK_N_DEAD'', [''0.40.01'']), (''TREE_TRUNK_NE'', [''0.40.01'']),
    (''TREE_TRUNK_NE_DEAD'', [''0.40.01'']), (''TREE_TRUNK_NEW'', [''0.40.01'']),
    (''TREE_TRUNK_NEW_DEAD'', [''0.40.01'']), (''TREE_TRUNK_NS'', [''0.40.01'']),
    (''TREE_TRUNK_NS_DEAD'', [''0.40.01'']), (''TREE_TRUNK_NSE'', [''0.40.01'']),
    (''TREE_TRUNK_NSE_DEAD'', [''0.40.01'']), (''TREE_TRUNK_NSEW'', [''0.40.01'']),
    (''TREE_TRUNK_NSEW_DEAD'', [''0.40.01'']), (''TREE_TRUNK_NSW'', [''0.40.01'']),
    (''TREE_TRUNK_NSW_DEAD'', [''0.40.01'']), (''TREE_TRUNK_NW'', [''0.40.01'']),
    (''TREE_TRUNK_NW_DEAD'', [''0.40.01'']), (''TREE_TRUNK_PILLAR'', [''0.40.01'']),
    (''TREE_TRUNK_PILLAR_DEAD'', [''0.40.01'']), (''TREE_TRUNK_S'', [''0.40.01'']),
    (''TREE_TRUNK_S_DEAD'', [''0.40.01'']), (''TREE_TRUNK_SE'', [''0.40.01'']),
    (''TREE_TRUNK_SE_DEAD'', [''0.40.01'']), (''TREE_TRUNK_SEW'', [''0.40.01'']),
    (''TREE_TRUNK_SEW_DEAD'', [''0.40.01'']), (''TREE_TRUNK_SLOPING'', [''0.40.01'']),
    (''TREE_TRUNK_SLOPING_DEAD'', [''0.40.01'']), (''TREE_TRUNK_SW'', [''0.40.01'']),
    (''TREE_TRUNK_SW_DEAD'', [''0.40.01'']), (''TREE_TRUNK_W'', [''0.40.01'']),
    (''TREE_TRUNK_W_DEAD'', [''0.40.01'']), (''TREE_TWIGS'', [''0.40.01'']),
    (''TREE_TWIGS_DEAD'', [''0.40.01'']), (''STRICT_POPULATION_CAP'', [''0.40.05'']),
    (''POST_PREPARE_EMBARK_CONFIRMATION'', [''0.40.09'']),
    (''GRAZE_COEFFICIENT'', [''0.40.13''])
  ]"

text \<open>
  \<open>option_name[0] == option_name.lower()[0]\<close> fails exactly when the first character
  is changed by \<open>lower()\<close>: the letters A to Z and the upper-case letters among the
  accented and Greek characters of cp437.
\<close>

definition is_upper :: "char \<Rightarrow> bool" where
  "is_upper c =
     ((0x41 \<le> (of_char c :: nat) \<and> (of_char c :: nat) \<le> 0x5A)
      \<or> (of_char c :: nat) \<in> {0x80, 0x8E, 0x8F, 0x90, 0x92, 0x99, 0x9A, 0xA5,
                               0xE2, 0xE4, 0xE8, 0xE9, 0xEA})"

text \<open>
  \<open>version_has_option\<close> after its first statement: the test of the first
  character and the lookup in the table.
\<close>

definition version_gate :: "df_info \<Rightarrow> string \<Rightarrow> error + bool" where
  "version_gate info option_name =
     (case option_name of
        [] \<Rightarrow> Inl IndexError
      | c # _ \<Rightarrow>
          if \<not> is_upper c then Inr True
          else (case map_of version_table option_name of
                  None \<Rightarrow> Inl KeyError
                | Some [] \<Rightarrow> Inl IndexError
                | Some [v0, v1] \<Rightarrow> Inr (version_ge info v0 \<and> version_lt info v1)
                | Some (v0 # _) \<Rightarrow> Inr (version_ge info v0)))"

definition version_has_option :: "registry \<Rightarrow> string \<Rightarrow> error + bool" where
  "version_has_option r option_name =
     version_gate (df_info r)
       (case field_names r option_name of Some f \<Rightarrow> f | None \<Rightarrow> option_name)"

subsection \<open>Registration and the values in memory\<close>

definition create_option ::
  "registry \<Rightarrow> string \<Rightarrow> string \<Rightarrow> string \<Rightarrow> valid_values \<Rightarrow> string list
     \<Rightarrow> error + registry" where
  "create_option r name field_name dflt vals fileset =
     (if settings r name \<noteq> None \<or> inverse_field_names r name \<noteq> None then Inr r
      else
        let r1 = r\<lparr>field_names := (field_names r)(name \<mapsto> field_name)\<rparr>
        in case version_has_option r1 field_name of
             Inl e \<Rightarrow> Inl e
           | Inr False \<Rightarrow> Inr r1
           | Inr True \<Rightarrow>
               Inr (r1\<lparr>settings := (settings r1)(name \<mapsto> dflt),
                       options := (options r1)(name \<mapsto> vals),
                       inverse_field_names :=
                         (if field_name \<noteq> name
                          then (inverse_field_names r1)(field_name \<mapsto> name)
                          else inverse_field_names r1),
                       files := (files r1)(name \<mapsto> fileset),
                       in_files :=
                         (in_files r1)(fileset \<mapsto>
                            (case in_files r1 fileset of None \<Rightarrow> [] | Some ns \<Rightarrow> ns)
                            @ [name])\<rparr>))"

definition set_value :: "registry \<Rightarrow> string \<Rightarrow> string \<Rightarrow> registry" where
  "set_value r name val = r\<lparr>settings := (settings r)(name \<mapsto> val)\<rparr>"

definition cycle_item :: "registry \<Rightarrow> string \<Rightarrow> error + registry" where
  "cycle_item r name =
     (case settings r name of
        None \<Rightarrow> Inl KeyError
      | Some current \<Rightarrow>
          (case options r name of
             None \<Rightarrow> Inl KeyError
           | Some items \<Rightarrow>
               (case cycle_list current items of
                  Inl e \<Rightarrow> Inl e
                | Inr v \<Rightarrow> Inr (r\<lparr>settings := (settings r)(name \<mapsto> v)\<rparr>))))"

text \<open>\<^verbatim>\<open>["YES", "NO"][["NO", "YES"].index(value)]\<close>\<close>

definition swap_yes_no :: "string \<Rightarrow> error + string" where
  "swap_yes_no val =
     (case index_of [''NO'', ''YES''] val of
        Inl e \<Rightarrow> Inl e
      | Inr i \<Rightarrow> Inr ([''YES'', ''NO''] ! i))"

subsection \<open>Reading\<close>

text \<open>
  One round of the loop \<open>for field in fields\<close> of \<open>read_file\<close>. The warning printed
  when a field has no match changes no state and is left out.
\<close>

definition read_field :: "registry \<Rightarrow> string \<Rightarrow> string \<Rightarrow> error + registry" where
  "read_field r text field0 =
     (let field = (case inverse_field_names r field0 of Some n \<Rightarrow> n | None \<Rightarrow> field0)
      in case options r field of
           None \<Rightarrow> Inl KeyError
         | Some vals \<Rightarrow>
             (case field_names r field of
                None \<Rightarrow> Inl KeyError
              | Some fname \<Rightarrow>
                  if vals = Disabled then
                    (if str_contains (''['' @ fname @ '']'') text
                     then Inr (r\<lparr>settings := (settings r)(field \<mapsto> ''YES'')\<rparr>)
                     else Inr r)
                  else if \<not> regex_literal fname then Inl Unmodelled
                  else
                    (case re_search fname text of
                       None \<Rightarrow> Inr r
                     | Some (pre, group1, rest) \<Rightarrow>
                         if vals = ForceBool \<and> group1 \<noteq> ''NO''
                         then Inr (r\<lparr>settings := (settings r)(field \<mapsto> ''YES'')\<rparr>)
                         else
                           (case (if vals = NegatedBool then swap_yes_no group1
                                  else Inr group1) of
                              Inl e \<Rightarrow> Inl e
                            | Inr val \<Rightarrow>
                                Inr (r\<lparr>settings := (settings r)(field \<mapsto> val)\<rparr>)))))"

fun read_fields :: "registry \<Rightarrow> string \<Rightarrow> string list \<Rightarrow> error + registry" where
  "read_fields r text [] = Inr r"
| "read_fields r text (field # flds) =
     (case read_field r text field of
        Inl e \<Rightarrow> Inl e
      | Inr r' \<Rightarrow> read_fields r' text flds)"

text \<open>
  The loop over \<open>re.findall\<close> under \<open>auto_add\<close>:
  \<open>create_option(match[0], match[0], match[1], None, (filename,))\<close>.
\<close>

fun auto_add_all :: "registry \<Rightarrow> string \<Rightarrow> (string \<times> string) list \<Rightarrow> error + registry" where
  "auto_add_all r filename [] = Inr r"
| "auto_add_all r filename ((n, v) # ms) =
     (case create_option r n n v NoneV [filename] of
        Inl e \<Rightarrow> Inl e
      | Inr r' \<Rightarrow> auto_add_all r' filename ms)"

definition read_file ::
  "registry \<Rightarrow> filesystem \<Rightarrow> string \<Rightarrow> string list \<Rightarrow> bool \<Rightarrow> error + registry" where
  "read_file r fs filename flds auto_add =
     (case read_text fs filename of
        Inl e \<Rightarrow> Inl e
      | Inr text \<Rightarrow>
          (case (if auto_add then auto_add_all r filename (re_findall text) else Inr r) of
             Inl e \<Rightarrow> Inl e
           | Inr r1 \<Rightarrow> read_fields r1 text flds))"



subsection \<open>Writing\<close>

text \<open>One round of the loop of \<open>write_file\<close>: the new text.\<close>

definition write_field :: "registry \<Rightarrow> string \<Rightarrow> string \<Rightarrow> error + string" where
  "write_field r text field =
     (case options r field of
        None \<Rightarrow> Inl KeyError
      | Some vals \<Rightarrow>
          (case settings r field of
             None \<Rightarrow> Inl KeyError
           | Some current \<Rightarrow>
               if vals = Disabled then
                 (case field_names r field of
                    None \<Rightarrow> Inl KeyError
                  | Some fname \<Rightarrow>
                      if current = ''NO''
                      then Inr (str_replace (''['' @ fname @ '']'') (''!'' @ fname @ ''!'') text)
                      else Inr (str_replace (''!'' @ fname @ ''!'') (''['' @ fname @ '']'') text))
               else
                 (case (if vals = NegatedBool then swap_yes_no current else Inr current) of
                    Inl e \<Rightarrow> Inl e
                  | Inr val \<Rightarrow>
                      (case field_names r field of
                         None \<Rightarrow> Inl KeyError
                       | Some fname \<Rightarrow> sub_field fname val text))))"

fun write_fields :: "registry \<Rightarrow> string \<Rightarrow> string list \<Rightarrow> error + string" where
  "write_fields r text [] = Inr text"
| "write_fields r text (field # flds) =
     (case write_field r text field of
        Inl e \<Rightarrow> Inl e
      | Inr text' \<Rightarrow> write_fields r text' flds)"

definition write_file ::
  "platform \<Rightarrow> registry \<Rightarrow> filesystem \<Rightarrow> string \<Rightarrow> string list \<Rightarrow> error + filesystem" where
  "write_file os r fs filename flds =
     (case read_text fs filename of
        Inl e \<Rightarrow> Inl e
      | Inr text \<Rightarrow>
          (case write_fields r text flds of
             Inl e \<Rightarrow> Inl e
           | Inr text' \<Rightarrow> Inr (write_text os fs filename text')))"




section \<open>Notions used to state the properties\<close>


text \<open>
  The values that \<^verbatim>\<open>(.+?)\]\<close> can capture: not empty, on one line, and with no
  closing bracket after the first character.
\<close>

definition value_ok :: "string \<Rightarrow> bool" where
  "value_ok v = (v \<noteq> [] \<and> LF \<notin> set v \<and> CHR '']'' \<notin> set (tl v))"


text \<open>
  \<open>write_file\<close> for one field, then \<open>read_file\<close> of the same file and field
  without automatic registration: the value in memory afterwards.
\<close>

definition write_then_read ::
  "platform \<Rightarrow> registry \<Rightarrow> filesystem \<Rightarrow> string \<Rightarrow> string \<Rightarrow> error + string option" where
  "write_then_read os r fs filename field =
     (case write_file os r fs filename [field] of
        Inl e \<Rightarrow> Inl e
      | Inr fs' \<Rightarrow>
          (case read_file r fs' filename [field] False of
             Inl e \<Rightarrow> Inl e
           | Inr r' \<Rightarrow> Inr (settings r' field)))"

text \<open>
  Every name with a policy, a file set, an entry in a list of \<open>in_files\<close> or an
  inverse mapping has a value in \<open>settings\<close>.
\<close>

definition consistent :: "registry \<Rightarrow> bool" where
  "consistent r \<longleftrightarrow>
     (\<forall>n. options r n \<noteq> None \<longrightarrow> settings r n \<noteq> None)
     \<and> (\<forall>n. files r n \<noteq> None \<longrightarrow> settings r n \<noteq> None)
     \<and> (\<forall>fileset ns n. in_files r fileset = Some ns \<longrightarrow> n \<in> set ns \<longrightarrow> settings r n \<noteq> None)
     \<and> (\<forall>f n. inverse_field_names r f = Some n \<longrightarrow> settings r n \<noteq> None)"

text \<open>
  The literal that \<open>write_file\<close> looks for in the text for a bracket toggle
  with the value \<open>current\<close>, and the literal it puts in its place.
\<close>

definition toggle_from :: "string \<Rightarrow> string \<Rightarrow> string" where
  "toggle_from fname current =
     (if current = ''NO'' then ''['' @ fname @ '']'' else ''!'' @ fname @ ''!'')"

definition toggle_to :: "string \<Rightarrow> string \<Rightarrow> string" where
  "toggle_to fname current =
     (if current = ''NO'' then ''!'' @ fname @ ''!'' else ''['' @ fname @ '']'')"


subsection \<open>A registry for the examples\<close>

text \<open>
  Three options of the built-in catalog, registered for version 0.40.13: a plain
  value, a negated boolean and a bracket toggle.
\<close>

definition example_registry :: registry where
  "example_registry =
     \<lparr>base_dir = ''df'', df_info = str_version ''0.40.13'',
      settings = [''volume'' \<mapsto> ''255'', ''entombPets'' \<mapsto> ''NO'', ''aquifers'' \<mapsto> ''NO''],
      options = [''volume'' \<mapsto> NoneV, ''entombPets'' \<mapsto> NegatedBool, ''aquifers'' \<mapsto> Disabled],
      field_names = [''volume'' \<mapsto> ''VOLUME'', ''entombPets'' \<mapsto> ''COFFIN_NO_PETS_DEFAULT'',
                     ''aquifers'' \<mapsto> ''AQUIFER''],
      inverse_field_names = [''VOLUME'' \<mapsto> ''volume'', ''COFFIN_NO_PETS_DEFAULT'' \<mapsto> ''entombPets'',
                             ''AQUIFER'' \<mapsto> ''aquifers''],
      files = [''volume'' \<mapsto> [''init.txt''], ''entombPets'' \<mapsto> [''d_init.txt''],
               ''aquifers'' \<mapsto> [''stone.txt'']],
      in_files = [[''init.txt''] \<mapsto> [''volume''], [''d_init.txt''] \<mapsto> [''entombPets''],
                  [''stone.txt''] \<mapsto> [''aquifers'']]\<rparr>"

section \<open>Properties\<close>

subsection \<open>Cycling\<close>

lemma index_of_first:
  "x \<notin> set pre \<Longrightarrow> index_of (pre @ x # rest) x = Inr (length pre)"
  by (induction pre) auto

lemma cycle_items_absent:
  "current \<notin> set (x # xs) \<Longrightarrow> cycle_items current (x # xs) = Inr x"
  by (simp add: cycle_items_def)

lemma cycle_items_next:
  assumes "current \<notin> set pre"
  shows "cycle_items current (pre @ current # nxt # rest) = Inr nxt"
proof -
  have "(length pre + 1) mod (length pre + Suc (Suc (length rest))) = length pre + 1"
    by simp
  then show ?thesis
    using assms
    by (simp add: cycle_items_def index_of_first nth_append)
qed

lemma cycle_items_wrap:
  assumes "current \<notin> set pre"
  shows "cycle_items current (pre @ [current]) = Inr (hd (pre @ [current]))"
  using assms
  by (simp add: cycle_items_def index_of_first nth_append hd_conv_nth)

text \<open>
  C7. \<open>cycle_list\<close> returns \<open>current\<close> for \<open>None\<close>; for a non-empty sequence it
  returns the first element when \<open>current\<close> is not a member, and otherwise the element
  after (the first occurrence of) \<open>current\<close>, wrapping from the last element to the
  first; the three markers behave as the sequence \<open>("YES", "NO")\<close>.
\<close>

theorem cycle_list_spec:
  "cycle_list current NoneV = Inr current
   \<and> (items \<noteq> [] \<and> current \<notin> set items \<longrightarrow>
        cycle_list current (Items items) = Inr (hd items))
   \<and> (items = pre @ current # rest \<and> current \<notin> set pre \<longrightarrow>
        cycle_list current (Items items) =
          Inr (if rest = [] then hd items else hd rest))
   \<and> (marker \<in> {Disabled, ForceBool, NegatedBool} \<longrightarrow>
        cycle_list current marker = cycle_list current (Items [''YES'', ''NO'']))"
proof (intro conjI impI)
  show "cycle_list current NoneV = Inr current" by simp
next
  assume "items \<noteq> [] \<and> current \<notin> set items"
  then show "cycle_list current (Items items) = Inr (hd items)"
    by (cases items) (simp_all add: cycle_items_absent del: set_simps)
next
  assume a: "items = pre @ current # rest \<and> current \<notin> set pre"
  show "cycle_list current (Items items) = Inr (if rest = [] then hd items else hd rest)"
  proof (cases rest)
    case Nil
    with a show ?thesis by (simp add: cycle_items_wrap)
  next
    case (Cons nxt rest')
    with a show ?thesis by (simp add: cycle_items_next)
  qed
next
  assume "marker \<in> {Disabled, ForceBool, NegatedBool}"
  then show "cycle_list current marker = cycle_list current (Items [''YES'', ''NO''])"
    by auto
qed

theorem cycle_list_spec_witness:
  "cycle_list ''YEARLY'' (Items [''NONE'', ''SEASONAL'', ''YEARLY'']) = Inr ''NONE''
   \<and> cycle_list ''BOGUS'' (Items [''NONE'', ''SEASONAL'', ''YEARLY'']) = Inr ''NONE''
   \<and> cycle_list ''NONE'' (Items [''NONE'', ''SEASONAL'', ''YEARLY'']) = Inr ''SEASONAL''
   \<and> cycle_list ''NO'' NegatedBool = Inr ''YES''"
proof -
  let ?xs = "[''NONE'', ''SEASONAL'', ''YEARLY'']"
  have a: "cycle_list ''YEARLY'' (Items ?xs) = Inr ''NONE''"
    using cycle_list_spec [of "''YEARLY''" ?xs "[''NONE'', ''SEASONAL'']" "[]" NegatedBool]
    by simp
  have b: "cycle_list ''BOGUS'' (Items ?xs) = Inr ''NONE''"
    using cycle_list_spec [of "''BOGUS''" ?xs "[]" "[]" NegatedBool]
    by simp
  have c: "cycle_list ''NONE'' (Items ?xs) = Inr ''SEASONAL''"
    using cycle_list_spec [of "''NONE''" ?xs "[]" "[''SEASONAL'', ''YEARLY'']" NegatedBool]
    by simp
  have d: "cycle_list ''NO'' NegatedBool = Inr ''YES''"
    using cycle_list_spec [of "''NO''" "[''YES'', ''NO'']" "[''YES'']" "[]" NegatedBool]
    by simp
  from a b c d show ?thesis by simp
qed

subsection \<open>The regular expressions and the text layer\<close>

lemma until_close_SomeD:
  "until_close s = Some (v, r) \<Longrightarrow> s = v @ CHR '']'' # r \<and> CHR '']'' \<notin> set v \<and> LF \<notin> set v"
  by (induction s arbitrary: v) (auto split: if_splits option.splits)

lemma until_close_append:
  "CHR '']'' \<notin> set v \<Longrightarrow> LF \<notin> set v \<Longrightarrow> until_close (v @ CHR '']'' # r) = Some (v, r)"
  by (induction v) auto

lemma lazy_value_iff:
  "lazy_value s = Some (v, r) \<longleftrightarrow> s = v @ CHR '']'' # r \<and> value_ok v"
proof
  assume "lazy_value s = Some (v, r)"
  then show "s = v @ CHR '']'' # r \<and> value_ok v"
    by (cases s) (auto simp: value_ok_def split: if_splits option.splits dest: until_close_SomeD)
next
  assume a: "s = v @ CHR '']'' # r \<and> value_ok v"
  then obtain c v' where v: "v = c # v'" by (cases v) (auto simp: value_ok_def)
  with a show "lazy_value s = Some (v, r)"
    by (auto simp: value_ok_def until_close_append)
qed





lemma re_search_skip:
  "match_field fname (c # cs) = None \<Longrightarrow>
   re_search fname (c # cs) = map_option (\<lambda>(pre, v, r). (c # pre, v, r)) (re_search fname cs)"
  by (auto split: option.splits)















lemma universal_newlines_Cons:
  "c \<noteq> CR \<Longrightarrow> universal_newlines (c # s) = c # universal_newlines s"
  by (cases s) auto

lemma universal_newlines_id: "CR \<notin> set t \<Longrightarrow> universal_newlines t = t"
  by (induction t) (auto simp: universal_newlines_Cons)

lemma translate_newlines_LF: "translate_newlines [LF] t = t"
  by (induction t) auto



subsection \<open>Writing one field and reading it back\<close>















lemma map_of_skip: "l \<noteq> k \<Longrightarrow> map_of ps k = r \<Longrightarrow> map_of ((l, v) # ps) k = r"
  by simp

lemma map_of_hit: "map_of ((k, v) # ps) k = Some v"
  by simp


lemma table_VOLUME: "map_of version_table ''VOLUME'' = Some [''0.27.169.32a'']"
  unfolding version_table_def
  by (rule map_of_hit | (rule map_of_skip, (simp; fail)))+

lemma table_COFFIN: "map_of version_table ''COFFIN_NO_PETS_DEFAULT'' = Some [''0.27.169.32a'']"
  unfolding version_table_def
  by (rule map_of_hit | (rule map_of_skip, (simp; fail)))+

lemma table_AQUIFER: "map_of version_table ''AQUIFER'' = Some [''0.27.169.32a'']"
  unfolding version_table_def
  by (rule map_of_hit | (rule map_of_skip, (simp; fail)))+

lemma table_TRUETYPE: "map_of version_table ''TRUETYPE'' = Some [''0.31.13'']"
  unfolding version_table_def
  by (rule map_of_hit | (rule map_of_skip, (simp; fail)))+


lemma version_gate_VOLUME: "version_gate (str_version ''0.40.13'') ''VOLUME'' = Inr True"
  by (simp add: version_gate_def is_upper_def table_VOLUME str_version_def)

lemma version_gate_COFFIN:
  "version_gate (str_version ''0.40.13'') ''COFFIN_NO_PETS_DEFAULT'' = Inr True"
  by (simp add: version_gate_def is_upper_def table_COFFIN str_version_def)

lemma version_gate_AQUIFER: "version_gate (str_version ''0.40.13'') ''AQUIFER'' = Inr True"
  by (simp add: version_gate_def is_upper_def table_AQUIFER str_version_def)

lemma version_gate_TRUETYPE: "version_gate (str_version ''0.31.12'') ''TRUETYPE'' = Inr False"
  by (simp add: version_gate_def is_upper_def table_TRUETYPE str_version_def)


lemma example_registry_reachable:
  "(case create_option (empty_registry ''df'' (str_version ''0.40.13''))
           ''volume'' ''VOLUME'' ''255'' NoneV [''init.txt''] of
      Inl e \<Rightarrow> Inl e
    | Inr r1 \<Rightarrow>
        (case create_option r1 ''entombPets'' ''COFFIN_NO_PETS_DEFAULT'' ''NO'' NegatedBool
                [''d_init.txt''] of
           Inl e \<Rightarrow> Inl e
         | Inr r2 \<Rightarrow> create_option r2 ''aquifers'' ''AQUIFER'' ''NO'' Disabled [''stone.txt'']))
   = Inr example_registry"
  by (simp add: create_option_def version_has_option_def empty_registry_def example_registry_def
      version_gate_VOLUME version_gate_COFFIN version_gate_AQUIFER Let_def)



text \<open>
  On a file without carriage returns the text read is the bytes of the file, and
  under Posix the bytes written are the text. A file with other line endings than
  the platform's is rewritten with the platform's, whatever the fields.
\<close>

lemma read_text_plain:
  "fs filename = Some bytes \<Longrightarrow> CR \<notin> set bytes \<Longrightarrow> read_text fs filename = Inr bytes"
  by (simp add: read_text_def universal_newlines_id)

lemma write_text_Posix: "write_text Posix fs filename text = fs(filename \<mapsto> text)"
  by (simp add: write_text_def translate_newlines_LF)

lemma write_file_line_endings:
  "write_file Posix example_registry [''init.txt'' \<mapsto> ''[VOLUME:255]'' @ [CR, LF]]
      ''init.txt'' [] = Inr [''init.txt'' \<mapsto> ''[VOLUME:255]'' @ [LF]]"
  by (simp add: write_file_def read_text_def write_text_def)







text \<open>
  The round trip also fails for values with a newline, a carriage return or a
  backslash.
\<close>

lemma round_trip_newline_value:
  "write_then_read Posix (set_value example_registry ''volume'' (''1'' @ [LF] @ ''[VOLUME:2''))
      [''init.txt'' \<mapsto> ''[VOLUME:255]''] ''init.txt'' ''volume''
     = Inr (Some ''2'')"
  by (simp add: write_then_read_def write_file_def read_file_def read_text_def write_text_def
      write_field_def read_field_def example_registry_def set_value_def sub_field_def
      regex_literal_def regex_special_def match_field_def Let_def)

lemma round_trip_carriage_return_value:
  "write_then_read Posix (set_value example_registry ''volume'' (''1'' @ [CR] @ ''[VOLUME:2''))
      [''init.txt'' \<mapsto> ''[VOLUME:255]''] ''init.txt'' ''volume''
     = Inr (Some ''2'')"
  by (simp add: write_then_read_def write_file_def read_file_def read_text_def write_text_def
      write_field_def read_field_def example_registry_def set_value_def sub_field_def
      regex_literal_def regex_special_def match_field_def Let_def)

lemma round_trip_backslash_value:
  "write_then_read Posix (set_value example_registry ''volume'' [BSL, BSL])
      [''init.txt'' \<mapsto> ''[VOLUME:255]''] ''init.txt'' ''volume''
     = Inr (Some [BSL])"
  by (simp add: write_then_read_def write_file_def read_file_def read_text_def write_text_def
      write_field_def read_field_def example_registry_def set_value_def sub_field_def
      regex_literal_def regex_special_def match_field_def Let_def)



subsection \<open>Bracket toggles\<close>

lemma take_eq_decomp: "take (length old) s = old \<longleftrightarrow> (\<exists>rest. s = old @ rest)"
  by (metis append_eq_conv_conj)

lemma str_replace_absent:
  assumes "old \<noteq> []"
  shows "\<not> (\<exists>pre rest. s = pre @ old @ rest) \<Longrightarrow> str_replace old new s = s"
proof (induction s)
  case Nil
  with assms show ?case by simp
next
  case (Cons c cs)
  have "take (length old) (c # cs) \<noteq> old"
  proof
    assume "take (length old) (c # cs) = old"
    then obtain rest where "c # cs = [] @ old @ rest" by (auto simp: take_eq_decomp)
    with Cons.prems show False by blast
  qed
  moreover have "\<not> (\<exists>pre rest. cs = pre @ old @ rest)"
  proof
    assume "\<exists>pre rest. cs = pre @ old @ rest"
    then obtain pre rest where "c # cs = (c # pre) @ old @ rest" by auto
    with Cons.prems show False by blast
  qed
  ultimately show ?case using assms Cons.IH by simp
qed

lemma str_replace_first:
  assumes "old \<noteq> []"
  shows "s = pre @ old @ rest \<Longrightarrow>
         (\<forall>pre' rest'. s = pre' @ old @ rest' \<longrightarrow> length pre \<le> length pre') \<Longrightarrow>
         str_replace old new s = pre @ new @ str_replace old new rest"
proof (induction pre arbitrary: s)
  case Nil
  from assms obtain c cs where cs: "old @ rest = c # cs" by (cases old) auto
  have "take (length old) (old @ rest) = old" "drop (length old) (old @ rest) = rest" by simp_all
  then have "str_replace old new (c # cs) = new @ str_replace old new rest"
    using assms unfolding cs by simp
  with Nil cs show ?case by simp
next
  case (Cons c pre)
  have no: "take (length old) s \<noteq> old"
  proof
    assume "take (length old) s = old"
    then obtain rest' where "s = [] @ old @ rest'" by (auto simp: take_eq_decomp)
    with Cons.prems(2) have "length (c # pre) \<le> length ([] :: string)" by blast
    then show False by simp
  qed
  have least: "\<forall>pre' rest'. pre @ old @ rest = pre' @ old @ rest' \<longrightarrow> length pre \<le> length pre'"
  proof (intro allI impI)
    fix pre' rest'
    assume "pre @ old @ rest = pre' @ old @ rest'"
    then have "s = (c # pre') @ old @ rest'" using Cons.prems(1) by simp
    with Cons.prems(2) have "length (c # pre) \<le> length (c # pre')" by blast
    then show "length pre \<le> length pre'" by simp
  qed
  from Cons.IH [OF refl least] no assms Cons.prems(1) show ?case by simp
qed

text \<open>
  C3 (amended). For a registered bracket toggle, \<open>write_file\<close> of that one field
  looks for \<open>[F]\<close> and writes \<open>!F!\<close> when the value in memory is NO, and looks
  for \<open>!F!\<close> and writes \<open>[F]\<close> otherwise. Every occurrence is replaced, from
  left to right: a text without the literal is written back as it was read, with no
  error; otherwise the text before the first occurrence is kept, the occurrence is
  replaced, and the text after it is rewritten in the same way.
\<close>

theorem write_file_bracket_toggle:
  assumes "options r field = Some Disabled" and "settings r field = Some current"
    and "field_names r field = Some fname" and "read_text fs filename = Inr text"
  shows "write_file os r fs filename [field] =
           Inr (write_text os fs filename
                  (str_replace (toggle_from fname current) (toggle_to fname current) text))
         \<and> (\<not> (\<exists>pre rest. text = pre @ toggle_from fname current @ rest) \<longrightarrow>
               str_replace (toggle_from fname current) (toggle_to fname current) text = text)
         \<and> (\<forall>pre rest.
               text = pre @ toggle_from fname current @ rest
               \<and> (\<forall>pre' rest'. text = pre' @ toggle_from fname current @ rest'
                      \<longrightarrow> length pre \<le> length pre') \<longrightarrow>
               str_replace (toggle_from fname current) (toggle_to fname current) text =
                 pre @ toggle_to fname current
                  @ str_replace (toggle_from fname current) (toggle_to fname current) rest)"
proof -
  have ne: "toggle_from fname current \<noteq> []" by (simp add: toggle_from_def)
  have "write_file os r fs filename [field] =
           Inr (write_text os fs filename
                  (str_replace (toggle_from fname current) (toggle_to fname current) text))"
    using assms by (simp add: write_file_def write_field_def toggle_from_def toggle_to_def)
  then show ?thesis
    using str_replace_absent [OF ne] str_replace_first [OF ne] by blast
qed

theorem write_file_bracket_toggle_witness:
  "write_file Posix example_registry
      [''stone.txt'' \<mapsto> ''[SEDIMENTARY][AQUIFER][SOIL]''] ''stone.txt'' [''aquifers'']
     = Inr [''stone.txt'' \<mapsto> ''[SEDIMENTARY]!AQUIFER![SOIL]'']"
proof -
  let ?fs = "[''stone.txt'' \<mapsto> ''[SEDIMENTARY][AQUIFER][SOIL]'']"
  have t: "read_text ?fs ''stone.txt'' = Inr ''[SEDIMENTARY][AQUIFER][SOIL]''"
    by (simp add: read_text_def)
  from write_file_bracket_toggle [of example_registry "''aquifers''" "''NO''" "''AQUIFER''" ?fs
      "''stone.txt''" "''[SEDIMENTARY][AQUIFER][SOIL]''" Posix, OF _ _ _ t]
  show ?thesis
    by (simp add: example_registry_def toggle_from_def toggle_to_def write_text_def)
qed

theorem bracket_toggle_first_only_counterexample:
  "write_file Posix example_registry
      [''stone.txt'' \<mapsto> ''[AQUIFER] [AQUIFER]''] ''stone.txt'' [''aquifers'']
     = Inr [''stone.txt'' \<mapsto> ''!AQUIFER! !AQUIFER!'']
   \<and> [''stone.txt'' \<mapsto> ''!AQUIFER! !AQUIFER!''] \<noteq> [''stone.txt'' \<mapsto> ''!AQUIFER! [AQUIFER]'']"
proof -
  have "[''stone.txt'' \<mapsto> ''!AQUIFER! !AQUIFER!''] ''stone.txt''
        \<noteq> [''stone.txt'' \<mapsto> ''!AQUIFER! [AQUIFER]''] ''stone.txt''" by simp
  then have "[''stone.txt'' \<mapsto> ''!AQUIFER! !AQUIFER!''] \<noteq> [''stone.txt'' \<mapsto> ''!AQUIFER! [AQUIFER]'']"
    by metis
  then show ?thesis
    by (simp add: write_file_def read_text_def write_field_def example_registry_def
        write_text_def)
qed

subsection \<open>The static probes\<close>






subsection \<open>Negated booleans with other values\<close>



subsection \<open>Registration\<close>

text \<open>
  C5 (amended). \<open>create_option\<close> leaves the whole registry unchanged whenever
  \<open>name\<close> already has a value in \<open>settings\<close> or is itself a key of
  \<open>inverse_field_names\<close> (an on-disk field name mapped to another internal name);
  so once a call has stored \<open>name\<close>, every later call with that name changes
  nothing. The first registration wins: no later call, whatever its name, changes
  the value, the policy, the field name or the file set of a stored name.
\<close>

theorem create_option_registered_noop:
  "(settings r name \<noteq> None \<or> inverse_field_names r name \<noteq> None \<longrightarrow>
      create_option r name field_name dflt vals fileset = Inr r)
   \<and> (create_option r name field_name dflt vals fileset = Inr r' \<and> settings r' name \<noteq> None \<longrightarrow>
        create_option r' name field_name' dflt' vals' fileset' = Inr r')
   \<and> (create_option r name field_name dflt vals fileset = Inr r' \<and> settings r n \<noteq> None \<longrightarrow>
        settings r' n = settings r n \<and> options r' n = options r n
        \<and> field_names r' n = field_names r n \<and> files r' n = files r n)"
proof -
  have a: "settings r name \<noteq> None \<or> inverse_field_names r name \<noteq> None \<longrightarrow>
      create_option r name field_name dflt vals fileset = Inr r"
    by (simp add: create_option_def)
  have b: "create_option r name field_name dflt vals fileset = Inr r' \<and> settings r' name \<noteq> None \<longrightarrow>
        create_option r' name field_name' dflt' vals' fileset' = Inr r'"
    by (simp add: create_option_def)
  have c: "create_option r name field_name dflt vals fileset = Inr r' \<and> settings r n \<noteq> None \<longrightarrow>
        settings r' n = settings r n \<and> options r' n = options r n
        \<and> field_names r' n = field_names r n \<and> files r' n = files r n"
  proof
    assume h: "create_option r name field_name dflt vals fileset = Inr r' \<and> settings r n \<noteq> None"
    show "settings r' n = settings r n \<and> options r' n = options r n
        \<and> field_names r' n = field_names r n \<and> files r' n = files r n"
    proof (cases "settings r name \<noteq> None \<or> inverse_field_names r name \<noteq> None")
      case True
      with h show ?thesis by (simp add: create_option_def)
    next
      case False
      with h have "n \<noteq> name" by auto
      with h False show ?thesis
        by (auto simp: create_option_def Let_def split: sum.splits bool.splits)
    qed
  qed
  from a b c show ?thesis by (intro conjI)
qed

theorem create_option_registered_noop_witness:
  "create_option example_registry ''volume'' ''VOLUME'' ''100'' NoneV [''other.txt'']
     = Inr example_registry
   \<and> create_option example_registry ''VOLUME'' ''VOLUME'' ''100'' NoneV [''init.txt'']
     = Inr example_registry
   \<and> (\<exists>r'. create_option example_registry ''custom'' ''custom'' ''5'' NoneV [''init.txt''] = Inr r'
          \<and> settings r' ''custom'' = Some ''5''
          \<and> create_option r' ''custom'' ''custom'' ''6'' NoneV [''init.txt''] = Inr r'
          \<and> settings r' ''volume'' = Some ''255'')"
proof -
  have "settings example_registry ''volume'' \<noteq> None"
    and "inverse_field_names example_registry ''VOLUME'' \<noteq> None"
    by (simp_all add: example_registry_def)
  then have a: "create_option example_registry ''volume'' ''VOLUME'' ''100'' NoneV [''other.txt'']
     = Inr example_registry"
    and b: "create_option example_registry ''VOLUME'' ''VOLUME'' ''100'' NoneV [''init.txt'']
     = Inr example_registry"
    using create_option_registered_noop [of example_registry "''volume''" "''VOLUME''" "''100''"
        NoneV "[''other.txt'']"]
      create_option_registered_noop [of example_registry "''VOLUME''" "''VOLUME''" "''100''"
        NoneV "[''init.txt'']"]
    by blast+
  let ?c = "create_option example_registry ''custom'' ''custom'' ''5'' NoneV [''init.txt'']"
  have "\<exists>r'. ?c = Inr r' \<and> settings r' ''custom'' = Some ''5''"
    by (simp add: create_option_def version_has_option_def version_gate_def is_upper_def
        example_registry_def)
  then obtain r' where c: "?c = Inr r'" and s: "settings r' ''custom'' = Some ''5''" by blast
  have v: "settings example_registry ''volume'' = Some ''255''"
    by (simp add: example_registry_def)
  from create_option_registered_noop [of example_registry "''custom''" "''custom''" "''5''"
      NoneV "[''init.txt'']" r' "''custom''" "''6''" NoneV "[''init.txt'']" "''volume''"] c s v
  have "create_option r' ''custom'' ''custom'' ''6'' NoneV [''init.txt''] = Inr r'"
    and "settings r' ''volume'' = Some ''255''"
    by simp_all
  with a b c s show ?thesis by blast
qed

theorem create_option_again_counterexample:
  "create_option (empty_registry ''df'' (str_version ''0.31.12''))
      ''truetype'' ''TRUETYPE'' ''YES'' ForceBool [''init.txt'']
     = Inr ((empty_registry ''df'' (str_version ''0.31.12''))
             \<lparr>field_names := [''truetype'' \<mapsto> ''TRUETYPE'']\<rparr>)
   \<and> create_option ((empty_registry ''df'' (str_version ''0.31.12''))
             \<lparr>field_names := [''truetype'' \<mapsto> ''TRUETYPE'']\<rparr>)
      ''truetype'' ''truetype'' ''YES'' ForceBool [''init.txt'']
     \<noteq> Inr ((empty_registry ''df'' (str_version ''0.31.12''))
             \<lparr>field_names := [''truetype'' \<mapsto> ''TRUETYPE'']\<rparr>)
   \<and> create_option example_registry ''sound'' ''VOLUME'' ''YES'' NoneV [''init.txt'']
     \<noteq> Inr example_registry"
proof (intro conjI)
  let ?r0 = "empty_registry ''df'' (str_version ''0.31.12'')"
  let ?r1 = "?r0\<lparr>field_names := [''truetype'' \<mapsto> ''TRUETYPE'']\<rparr>"
  show "create_option ?r0 ''truetype'' ''TRUETYPE'' ''YES'' ForceBool [''init.txt''] = Inr ?r1"
    by (simp add: create_option_def version_has_option_def empty_registry_def
        version_gate_TRUETYPE)
  show "create_option ?r1 ''truetype'' ''truetype'' ''YES'' ForceBool [''init.txt''] \<noteq> Inr ?r1"
  proof
    assume "create_option ?r1 ''truetype'' ''truetype'' ''YES'' ForceBool [''init.txt''] = Inr ?r1"
    then have "map_sum id (\<lambda>r. settings r ''truetype'')
        (create_option ?r1 ''truetype'' ''truetype'' ''YES'' ForceBool [''init.txt''])
        = Inr (settings ?r1 ''truetype'')" by simp
    then show False
      by (simp add: create_option_def version_has_option_def empty_registry_def
          version_gate_def is_upper_def)
  qed
  show "create_option example_registry ''sound'' ''VOLUME'' ''YES'' NoneV [''init.txt'']
     \<noteq> Inr example_registry"
  proof
    assume "create_option example_registry ''sound'' ''VOLUME'' ''YES'' NoneV [''init.txt'']
     = Inr example_registry"
    then have "map_sum id (\<lambda>r. settings r ''sound'')
        (create_option example_registry ''sound'' ''VOLUME'' ''YES'' NoneV [''init.txt''])
        = Inr (settings example_registry ''sound'')" by simp
    then show False
      by (simp add: create_option_def version_has_option_def example_registry_def
          version_gate_VOLUME)
  qed
qed

lemma consistentD:
  assumes "consistent r"
  shows "options r n = Some x \<Longrightarrow> settings r n \<noteq> None"
    and "files r n = Some fl \<Longrightarrow> settings r n \<noteq> None"
    and "in_files r fileset = Some ns \<Longrightarrow> n \<in> set ns \<Longrightarrow> settings r n \<noteq> None"
    and "inverse_field_names r f = Some n \<Longrightarrow> settings r n \<noteq> None"
  using assms unfolding consistent_def by blast+

text \<open>
  The registry is consistent when it is created, and registration, \<open>set_value\<close>,
  \<open>cycle_item\<close> and \<open>read_file\<close> keep it so.
\<close>

lemma consistent_empty: "consistent (empty_registry dir info)"
  by (simp add: consistent_def empty_registry_def)

lemma consistent_set_value: "consistent r \<Longrightarrow> consistent (set_value r name val)"
  by (simp add: consistent_def set_value_def)

lemma consistent_create_option:
  assumes "consistent r" and "create_option r name field_name dflt vals fileset = Inr r'"
  shows "consistent r'"
proof (cases "settings r name \<noteq> None \<or> inverse_field_names r name \<noteq> None")
  case True
  with assms show ?thesis by (simp add: create_option_def)
next
  case False
  let ?r1 = "r\<lparr>field_names := (field_names r)(name \<mapsto> field_name)\<rparr>"
  have c1: "consistent ?r1" using assms(1) by (simp add: consistent_def)
  show ?thesis
  proof (cases "version_has_option ?r1 field_name")
    case (Inl e)
    with False assms(2) show ?thesis by (simp add: create_option_def Let_def)
  next
    case (Inr b)
    show ?thesis
    proof (cases b)
      case False
      with Inr \<open>\<not> (settings r name \<noteq> None \<or> inverse_field_names r name \<noteq> None)\<close> assms(2) c1
      show ?thesis by (simp add: create_option_def Let_def)
    next
      case True
      with Inr \<open>\<not> (settings r name \<noteq> None \<or> inverse_field_names r name \<noteq> None)\<close> assms(2)
      have r': "r' = ?r1\<lparr>settings := (settings ?r1)(name \<mapsto> dflt),
                       options := (options ?r1)(name \<mapsto> vals),
                       inverse_field_names :=
                         (if field_name \<noteq> name
                          then (inverse_field_names ?r1)(field_name \<mapsto> name)
                          else inverse_field_names ?r1),
                       files := (files ?r1)(name \<mapsto> fileset),
                       in_files :=
                         (in_files ?r1)(fileset \<mapsto>
                            (case in_files ?r1 fileset of None \<Rightarrow> [] | Some ns \<Rightarrow> ns)
                            @ [name])\<rparr>"
        by (simp add: create_option_def Let_def)
      have "settings r' n \<noteq> None" if "options r' n \<noteq> None" for n
        using that consistentD(1) [OF assms(1), where n = n] unfolding r' by (auto split: if_splits)
      moreover have "settings r' n \<noteq> None" if "files r' n \<noteq> None" for n
        using that consistentD(2) [OF assms(1), where n = n] unfolding r' by (auto split: if_splits)
      moreover have "settings r' n \<noteq> None" if "in_files r' fs = Some ns" and "n \<in> set ns" for fs ns n
        using that consistentD(3) [OF assms(1), where n = n] unfolding r'
        by (auto split: if_splits option.splits)
      moreover have "settings r' n \<noteq> None" if "inverse_field_names r' f = Some n" for f n
        using that consistentD(4) [OF assms(1), where n = n] unfolding r' by (auto split: if_splits)
      ultimately show ?thesis unfolding consistent_def by blast
    qed
  qed
qed

text \<open>
  C8. When the version check answers that the field is not supported,
  \<open>create_option\<close> of a name that is not yet registered records
  \<open>field_names[name] = field_name\<close> and nothing else: no value, no policy, no file
  set and no inverse mapping. In a consistent registry the name is then absent from
  \<open>settings\<close>, \<open>options\<close> and \<open>files\<close>, from every list of \<open>in_files\<close> (the
  lists the bulk operations walk through) and from the values of
  \<open>inverse_field_names\<close>.
\<close>

theorem create_option_unsupported:
  assumes "consistent r" and "settings r name = None" and "inverse_field_names r name = None"
    and "version_has_option (r\<lparr>field_names := (field_names r)(name \<mapsto> field_name)\<rparr>) field_name
           = Inr False"
  shows "\<exists>r'. create_option r name field_name dflt vals fileset = Inr r'
           \<and> field_names r' = (field_names r)(name \<mapsto> field_name)
           \<and> settings r' = settings r \<and> options r' = options r \<and> files r' = files r
           \<and> in_files r' = in_files r \<and> inverse_field_names r' = inverse_field_names r
           \<and> settings r' name = None \<and> options r' name = None \<and> files r' name = None
           \<and> (\<forall>fileset' ns. in_files r' fileset' = Some ns \<longrightarrow> name \<notin> set ns)
           \<and> (\<forall>f. inverse_field_names r' f \<noteq> Some name)"
proof -
  let ?r' = "r\<lparr>field_names := (field_names r)(name \<mapsto> field_name)\<rparr>"
  have "create_option r name field_name dflt vals fileset = Inr ?r'"
    using assms(2,3,4) by (simp add: create_option_def Let_def)
  moreover have "options r name = None" "files r name = None"
    "\<forall>fileset' ns. in_files r fileset' = Some ns \<longrightarrow> name \<notin> set ns"
    "\<forall>f. inverse_field_names r f \<noteq> Some name"
    using consistentD [OF assms(1), where n = name] assms(2)
    by (cases "options r name"; cases "files r name"; blast)+
  ultimately show ?thesis using assms(2) by simp
qed

theorem create_option_unsupported_witness:
  "\<exists>r'. create_option (empty_registry ''df'' (str_version ''0.31.12''))
           ''truetype'' ''TRUETYPE'' ''YES'' ForceBool [''init.txt''] = Inr r'
        \<and> field_names r' ''truetype'' = Some ''TRUETYPE''
        \<and> settings r' ''truetype'' = None \<and> options r' ''truetype'' = None"
proof -
  let ?r0 = "empty_registry ''df'' (str_version ''0.31.12'')"
  have v: "version_has_option (?r0\<lparr>field_names := (field_names ?r0)(''truetype'' \<mapsto> ''TRUETYPE'')\<rparr>)
      ''TRUETYPE'' = Inr False"
    by (simp add: version_has_option_def empty_registry_def version_gate_TRUETYPE)
  have s: "settings ?r0 ''truetype'' = None" "inverse_field_names ?r0 ''truetype'' = None"
    by (simp_all add: empty_registry_def)
  from create_option_unsupported [OF consistent_empty s v, of "''YES''" ForceBool "[''init.txt'']"]
  obtain r' where "create_option ?r0 ''truetype'' ''TRUETYPE'' ''YES'' ForceBool [''init.txt''] = Inr r'"
    "field_names r' = (field_names ?r0)(''truetype'' \<mapsto> ''TRUETYPE'')"
    "settings r' ''truetype'' = None" "options r' ''truetype'' = None"
    by blast
  then show ?thesis by simp
qed

lemma consistent_cycle_item: "consistent r \<Longrightarrow> cycle_item r name = Inr r' \<Longrightarrow> consistent r'"
  by (auto simp: cycle_item_def consistent_def split: option.splits sum.splits)

lemma consistent_read_field: "consistent r \<Longrightarrow> read_field r text field = Inr r' \<Longrightarrow> consistent r'"
  by (auto simp: read_field_def consistent_def Let_def split: option.splits sum.splits if_splits)

lemma consistent_read_fields:
  "consistent r \<Longrightarrow> read_fields r text flds = Inr r' \<Longrightarrow> consistent r'"
proof (induction flds arbitrary: r)
  case Nil
  then show ?case by simp
next
  case (Cons f flds)
  then show ?case by (auto split: sum.splits dest: consistent_read_field)
qed

lemma consistent_auto_add_all:
  "consistent r \<Longrightarrow> auto_add_all r filename ms = Inr r' \<Longrightarrow> consistent r'"
proof (induction ms arbitrary: r)
  case Nil
  then show ?case by simp
next
  case (Cons m ms)
  obtain n v where m: "m = (n, v)" by (cases m)
  from Cons.prems m obtain r1 where r1: "create_option r n n v NoneV [filename] = Inr r1"
    and rest: "auto_add_all r1 filename ms = Inr r'"
    by (auto split: sum.splits)
  from consistent_create_option [OF Cons.prems(1) r1] have "consistent r1" .
  from Cons.IH [OF this rest] show ?case .
qed

lemma consistent_read_file:
  "consistent r \<Longrightarrow> read_file r fs filename flds auto_add = Inr r' \<Longrightarrow> consistent r'"
  by (auto simp: read_file_def split: sum.splits if_splits
      dest: consistent_auto_add_all consistent_read_fields)

subsection \<open>Automatic registration\<close>

lemma version_gate_lower:
  "name \<noteq> [] \<Longrightarrow> \<not> is_upper (hd name) \<Longrightarrow> version_gate info name = Inr True"
  by (cases name) (simp_all add: version_gate_def)












text \<open>
  A token \<open>[name:v]\<close> with no opening bracket before it is the first match of
  \<open>re.findall\<close>.
\<close>

lemma name_tail_plain:
  "CHR '':'' \<notin> set n \<Longrightarrow> LF \<notin> set n \<Longrightarrow> lazy_value s = Some (v, r) \<Longrightarrow>
   name_tail (n @ CHR '':'' # s) = Some (n, v, r)"
  by (induction n) auto

lemma match_pair_token:
  assumes "name \<noteq> []" and "LF \<notin> set name" and "CHR '':'' \<notin> set (tl name)" and "value_ok v"
  shows "match_pair (CHR ''['' # name @ CHR '':'' # v @ CHR '']'' # post) = Some (name, v, post)"
proof -
  from assms(1) obtain c n where n: "name = c # n" by (cases name) auto
  have "lazy_value (v @ CHR '']'' # post) = Some (v, post)"
    using assms(4) by (simp add: lazy_value_iff)
  with name_tail_plain [of n "v @ CHR '']'' # post" v post] assms(2,3) n
  have "name_tail (n @ CHR '':'' # v @ CHR '']'' # post) = Some (n, v, post)" by simp
  with n assms(2) show ?thesis by auto
qed

lemma match_pair_other: "c \<noteq> CHR ''['' \<Longrightarrow> match_pair (c # s) = None"
  by (cases s) auto

lemma re_findall_skip: "CHR ''['' \<notin> set pre \<Longrightarrow> re_findall (pre @ s) = re_findall s"
  by (induction pre) (auto simp: match_pair_other)

lemma re_findall_token:
  assumes "CHR ''['' \<notin> set pre"
    and "name \<noteq> []" and "LF \<notin> set name" and "CHR '':'' \<notin> set (tl name)" and "value_ok v"
  shows "re_findall (pre @ CHR ''['' # name @ CHR '':'' # v @ CHR '']'' # post)
           = (name, v) # re_findall post"
  using match_pair_token [OF assms(2-5), of post]
  by (simp add: re_findall_skip [OF assms(1)])

end
